theory Spec2Isabelle
  imports Main "HOL-Library.Word"
begin

section \<open>The host interface used by voiceprogram.c++\<close>

text \<open>
  The program is two sequential calls into the Windows host: \<^verbatim>\<open>Beep\<close> (windows.h) and
  the SAPI voice reached through COM (sapi.h). The host is not part of the repository;
  what it answers is a parameter of the model. Every call the program makes, and every
  line it prints, is appended to a trace, oldest event first.
\<close>

text \<open>
  \<^verbatim>\<open>HRESULT\<close> is a signed 32-bit \<^verbatim>\<open>LONG\<close>. The Windows SDK (winerror.h, not in the
  repository) defines \<^verbatim>\<open>SUCCEEDED(hr)\<close> as \<^verbatim>\<open>((HRESULT)(hr)) >= 0\<close> and
  \<^verbatim>\<open>FAILED(hr)\<close> as \<^verbatim>\<open>((HRESULT)(hr)) < 0\<close>.
\<close>

type_synonym hresult = "32 word"

type_synonym dword = "32 word"

definition SUCCEEDED :: "hresult \<Rightarrow> bool" where
  "SUCCEEDED hr = (0 \<le> sint hr)"

definition FAILED :: "hresult \<Rightarrow> bool" where
  "FAILED hr = (sint hr < 0)"

text \<open>
  An \<^verbatim>\<open>ISpVoice*\<close>: the null pointer, or the address of a voice object. Calling a
  method through the null pointer is the one way the program could crash.
\<close>

datatype voice_ptr = nullptr | Ptr nat

datatype crash = Null_dereference

text \<open>The symbolic constants the source passes to the host (sapi.h, objbase.h).\<close>

datatype SPEAKFLAGS =
  SPF_DEFAULT | SPF_ASYNC | SPF_PURGEBEFORESPEAK | SPF_IS_FILENAME | SPF_IS_XML | SPF_IS_NOT_XML

datatype clsid = CLSID_SpVoice

datatype iid = IID_ISpVoice

datatype clsctx = CLSCTX_ALL

text \<open>
  One event per host call, with the arguments the program passed and what the host
  returned, and one event per line written to \<^verbatim>\<open>std::cout\<close> or \<^verbatim>\<open>std::cerr\<close>
  (the text before \<^verbatim>\<open>std::endl\<close>). Three arguments are the null pointer at the only
  call site and are not recorded: the reserved argument of \<^verbatim>\<open>CoInitialize\<close>, the outer
  object of \<^verbatim>\<open>CoCreateInstance\<close> and the stream-number out-parameter of \<^verbatim>\<open>Speak\<close>.
\<close>

datatype event =
    is_Stdout: Stdout_line string
  | is_Stderr: Stderr_line string
  | is_Beep: Beep_call dword dword bool
  | is_CoInitialize: CoInitialize_call hresult
  | is_CoCreateInstance: CoCreateInstance_call clsid clsctx iid hresult voice_ptr
  | is_Speak: Speak_call nat string SPEAKFLAGS hresult
  | is_Release: Release_call nat
  | is_CoUninitialize: CoUninitialize_call

type_synonym trace = "event list"

text \<open>
  What the host answers during one run of the program. Each host function is called at
  most once in a run, so one answer per function describes every possible host.
  \<open>voice_object\<close> is the address of the voice the host creates when
  \<^verbatim>\<open>CoCreateInstance\<close> succeeds.
\<close>

record host =
  Beep_ret :: bool
  CoInitialize_ret :: hresult
  CoCreateInstance_ret :: hresult
  voice_object :: nat
  Speak_ret :: hresult

subsection \<open>Host calls\<close>

definition cout_endl :: "string \<Rightarrow> trace \<Rightarrow> trace" where
  "cout_endl s t = t @ [Stdout_line s]"

definition cerr_endl :: "string \<Rightarrow> trace \<Rightarrow> trace" where
  "cerr_endl s t = t @ [Stderr_line s]"

definition Beep :: "host \<Rightarrow> dword \<Rightarrow> dword \<Rightarrow> trace \<Rightarrow> bool \<times> trace" where
  "Beep h dwFreq dwDuration t =
     (Beep_ret h, t @ [Beep_call dwFreq dwDuration (Beep_ret h)])"

definition CoInitialize :: "host \<Rightarrow> trace \<Rightarrow> hresult \<times> trace" where
  "CoInitialize h t = (CoInitialize_ret h, t @ [CoInitialize_call (CoInitialize_ret h)])"

text \<open>
  \<^verbatim>\<open>CoCreateInstance\<close> returns its result code and writes the out-parameter
  \<^verbatim>\<open>*ppv\<close>. Its documented contract: on success \<^verbatim>\<open>*ppv\<close> holds the requested
  interface pointer, on failure it holds \<^verbatim>\<open>NULL\<close>.
\<close>

definition CoCreateInstance ::
  "host \<Rightarrow> clsid \<Rightarrow> clsctx \<Rightarrow> iid \<Rightarrow> trace \<Rightarrow> hresult \<times> voice_ptr \<times> trace" where
  "CoCreateInstance h rclsid dwClsContext riid t =
     (let hr = CoCreateInstance_ret h;
          ppv = (if SUCCEEDED hr then Ptr (voice_object h) else nullptr)
      in (hr, ppv, t @ [CoCreateInstance_call rclsid dwClsContext riid hr ppv]))"

definition CoUninitialize :: "trace \<Rightarrow> trace" where
  "CoUninitialize t = t @ [CoUninitialize_call]"

text \<open>
  \<^verbatim>\<open>std::wstring::c_str\<close> hands the host a NUL-terminated array: the host reads the
  characters before the first NUL. Characters are modelled as 8-bit; the note is ASCII.
\<close>

definition c_str :: "string \<Rightarrow> string" where
  "c_str s = takeWhile (\<lambda>c. c \<noteq> CHR 0x00) s"

text \<open>The two methods the program calls through the voice pointer.\<close>

definition ISpVoice_Speak ::
  "host \<Rightarrow> voice_ptr \<Rightarrow> string \<Rightarrow> SPEAKFLAGS \<Rightarrow> trace \<Rightarrow> crash + hresult \<times> trace" where
  "ISpVoice_Speak h p pwcs dwFlags t =
     (case p of
        nullptr \<Rightarrow> Inl Null_dereference
      | Ptr a \<Rightarrow> Inr (Speak_ret h, t @ [Speak_call a pwcs dwFlags (Speak_ret h)]))"

definition ISpVoice_Release :: "voice_ptr \<Rightarrow> trace \<Rightarrow> crash + trace" where
  "ISpVoice_Release p t =
     (case p of
        nullptr \<Rightarrow> Inl Null_dereference
      | Ptr a \<Rightarrow> Inr (t @ [Release_call a]))"

section \<open>The program\<close>

text \<open>\<^verbatim>\<open>void generateTone()\<close>: no parameter; the result of \<^verbatim>\<open>Beep\<close> is discarded.\<close>

definition generateTone :: "host \<Rightarrow> trace \<Rightarrow> trace" where
  "generateTone h t = snd (Beep h 18000 3000 t)"

text \<open>
  \<^verbatim>\<open>void speakText(const std::wstring& text)\<close>. The local \<^verbatim>\<open>pVoice\<close> starts as
  the null pointer and is written only by \<^verbatim>\<open>CoCreateInstance\<close>. The results of
  \<^verbatim>\<open>Speak\<close> and \<^verbatim>\<open>Release\<close> are discarded.
\<close>

definition speakText :: "host \<Rightarrow> string \<Rightarrow> trace \<Rightarrow> crash + trace" where
  "speakText h text t0 =
     (let pVoice = nullptr;
          (hr0, t1) = CoInitialize h t0
      in if FAILED hr0 then Inr (cerr_endl ''Failed to initialize COM.'' t1)
         else
           let (hr, pVoice, t2) = CoCreateInstance h CLSID_SpVoice CLSCTX_ALL IID_ISpVoice t1;
               r = (if SUCCEEDED hr then
                      (case ISpVoice_Speak h pVoice (c_str text) SPF_IS_XML t2 of
                         Inl c \<Rightarrow> Inl c
                       | Inr (_, t3) \<Rightarrow> ISpVoice_Release pVoice t3)
                    else Inr (cerr_endl ''Failed to create SAPI voice instance.'' t2))
           in (case r of
                 Inl c \<Rightarrow> Inl c
               | Inr t4 \<Rightarrow> Inr (CoUninitialize t4)))"

definition voice_to_speak :: string where
  "voice_to_speak = ''The patient has been complaining of chest pain for the past week. ECG shows irregular rhythm. Prescribed low dose beta-blocker. Recommended follow-up in 5 days.''"

text \<open>\<^verbatim>\<open>int main()\<close>: the result is the exit code and the trace, or a crash.\<close>

definition main :: "host \<Rightarrow> trace \<Rightarrow> crash + 32 word \<times> trace" where
  "main h t0 =
     (let t1 = cout_endl ''Generating 18kHz tone...'' t0;
          t2 = generateTone h t1;
          t3 = cout_endl ''Speaking medical note...'' t2
      in (case speakText h voice_to_speak t3 of
            Inl c \<Rightarrow> Inl c
          | Inr t4 \<Rightarrow> Inr (0, t4)))"

section \<open>Observations on traces\<close>

text \<open>A \<^verbatim>\<open>CoInitialize\<close> call that returned a failure code.\<close>

fun CoInitialize_failed :: "event \<Rightarrow> bool" where
  "CoInitialize_failed (CoInitialize_call hr) = FAILED hr"
| "CoInitialize_failed _ = False"

text \<open>A \<^verbatim>\<open>CoCreateInstance\<close> call that returned a failure code.\<close>

fun CoCreateInstance_failed :: "event \<Rightarrow> bool" where
  "CoCreateInstance_failed (CoCreateInstance_call _ _ _ hr _) = FAILED hr"
| "CoCreateInstance_failed _ = False"

text \<open>
  The COM library is acquired by every \<^verbatim>\<open>CoInitialize\<close> call that succeeds (only those
  have to be balanced) and released by every \<^verbatim>\<open>CoUninitialize\<close> call.
\<close>

fun CoInitialize_succeeded :: "event \<Rightarrow> bool" where
  "CoInitialize_succeeded (CoInitialize_call hr) = SUCCEEDED hr"
| "CoInitialize_succeeded _ = False"

definition com_acquired :: "trace \<Rightarrow> nat" where
  "com_acquired t = length (filter CoInitialize_succeeded t)"

definition com_released :: "trace \<Rightarrow> nat" where
  "com_released t = length (filter is_CoUninitialize t)"

text \<open>
  A voice is acquired when \<^verbatim>\<open>CoCreateInstance\<close> hands out a non-null pointer, released
  by \<^verbatim>\<open>Release\<close>, and used by every method call through the pointer.
\<close>

fun acquired_voice :: "event \<Rightarrow> nat list" where
  "acquired_voice (CoCreateInstance_call _ _ _ _ (Ptr a)) = [a]"
| "acquired_voice _ = []"

fun released_voice :: "event \<Rightarrow> nat list" where
  "released_voice (Release_call a) = [a]"
| "released_voice _ = []"

fun used_voice :: "event \<Rightarrow> nat list" where
  "used_voice (Speak_call a _ _ _) = [a]"
| "used_voice (Release_call a) = [a]"
| "used_voice _ = []"

definition voices_acquired :: "trace \<Rightarrow> nat list" where
  "voices_acquired t = concat (map acquired_voice t)"

definition voices_released :: "trace \<Rightarrow> nat list" where
  "voices_released t = concat (map released_voice t)"

definition voices_used :: "trace \<Rightarrow> nat list" where
  "voices_used t = concat (map used_voice t)"

text \<open>
  The value of the local \<^verbatim>\<open>pVoice\<close> after the events of a call of \<^verbatim>\<open>speakText\<close>:
  it starts as \<open>p\<close> and the only writer is \<^verbatim>\<open>CoCreateInstance\<close>, which is passed
  \<^verbatim>\<open>&pVoice\<close> and whose event records the pointer it stored there.
\<close>

fun pVoice_after :: "voice_ptr \<Rightarrow> trace \<Rightarrow> voice_ptr" where
  "pVoice_after p [] = p"
| "pVoice_after p (CoCreateInstance_call _ _ _ _ q # t) = pVoice_after q t"
| "pVoice_after p (_ # t) = pVoice_after p t"

text \<open>The events of the announcement: everything \<^verbatim>\<open>speakText\<close> can append.\<close>

definition is_speech_event :: "event \<Rightarrow> bool" where
  "is_speech_event e \<longleftrightarrow>
     is_Stderr e \<or> is_CoInitialize e \<or> is_CoCreateInstance e \<or> is_Speak e \<or> is_Release e \<or>
     is_CoUninitialize e"

section \<open>Comparison definitions\<close>

text \<open>
  The specification's ToneEmitter takes a ToneSpec (a frequency in Hz and a duration in
  milliseconds) and plays that tone. This definition follows the specification's words, to
  be compared with \<open>generateTone\<close>, which is the source's.
\<close>

record ToneSpec =
  frequency :: dword
  duration :: dword

definition spec_ToneEmitter :: "host \<Rightarrow> ToneSpec \<Rightarrow> trace \<Rightarrow> trace" where
  "spec_ToneEmitter h ts t = snd (Beep h (frequency ts) (duration ts) t)"

text \<open>
  The full sequence run twice in succession: the second run starts on the trace the first
  one left, with the host answering by \<open>h1\<close> during the first run and by \<open>h2\<close>
  during the second. The result holds both exit codes.
\<close>

definition run_twice :: "host \<Rightarrow> host \<Rightarrow> trace \<Rightarrow> crash + 32 word \<times> 32 word \<times> trace" where
  "run_twice h1 h2 t0 =
     (case main h1 t0 of
        Inl c \<Rightarrow> Inl c
      | Inr (rc1, t1) \<Rightarrow>
          (case main h2 t1 of
             Inl c \<Rightarrow> Inl c
           | Inr (rc2, t2) \<Rightarrow> Inr (rc1, rc2, t2)))"

section \<open>Sample hosts\<close>

text \<open>A host on which every call succeeds (\<^verbatim>\<open>S_OK\<close> is 0).\<close>

definition host_healthy :: host where
  "host_healthy =
     \<lparr>Beep_ret = True, CoInitialize_ret = 0, CoCreateInstance_ret = 0, voice_object = 7,
      Speak_ret = 0\<rparr>"

text \<open>A host on which \<^verbatim>\<open>CoInitialize\<close> fails with \<^verbatim>\<open>E_FAIL\<close> (0x80004005).\<close>

definition host_no_com :: host where
  "host_no_com =
     \<lparr>Beep_ret = True, CoInitialize_ret = 0x80004005, CoCreateInstance_ret = 0,
      voice_object = 7, Speak_ret = 0\<rparr>"

text \<open>
  A host on which the voice class is not registered: \<^verbatim>\<open>CoCreateInstance\<close> fails with
  \<^verbatim>\<open>REGDB_E_CLASSNOTREG\<close> (0x80040154).
\<close>

definition host_no_voice :: host where
  "host_no_voice =
     \<lparr>Beep_ret = True, CoInitialize_ret = 0, CoCreateInstance_ret = 0x80040154,
      voice_object = 7, Speak_ret = 0\<rparr>"

section \<open>Basic facts\<close>

lemma SUCCEEDED_iff_not_FAILED: "SUCCEEDED hr \<longleftrightarrow> \<not> FAILED hr"
  by (auto simp: SUCCEEDED_def FAILED_def)

lemma c_str_voice_to_speak: "c_str voice_to_speak = voice_to_speak"
  by (simp add: c_str_def voice_to_speak_def)

lemma generateTone_eq: "generateTone h t = t @ [Beep_call 18000 3000 (Beep_ret h)]"
  by (simp add: generateTone_def Beep_def)

lemma speakText_init_failed:
  assumes "FAILED (CoInitialize_ret h)"
  shows "speakText h text t =
    Inr (t @ [CoInitialize_call (CoInitialize_ret h), Stderr_line ''Failed to initialize COM.''])"
  using assms by (simp add: speakText_def CoInitialize_def cerr_endl_def)

lemma speakText_create_failed:
  assumes "\<not> FAILED (CoInitialize_ret h)" and "\<not> SUCCEEDED (CoCreateInstance_ret h)"
  shows "speakText h text t =
    Inr (t @ [CoInitialize_call (CoInitialize_ret h),
              CoCreateInstance_call CLSID_SpVoice CLSCTX_ALL IID_ISpVoice
                (CoCreateInstance_ret h) nullptr,
              Stderr_line ''Failed to create SAPI voice instance.'',
              CoUninitialize_call])"
  using assms
  by (simp add: speakText_def CoInitialize_def CoCreateInstance_def cerr_endl_def
      CoUninitialize_def Let_def)

lemma speakText_spoken:
  assumes "\<not> FAILED (CoInitialize_ret h)" and "SUCCEEDED (CoCreateInstance_ret h)"
  shows "speakText h text t =
    Inr (t @ [CoInitialize_call (CoInitialize_ret h),
              CoCreateInstance_call CLSID_SpVoice CLSCTX_ALL IID_ISpVoice
                (CoCreateInstance_ret h) (Ptr (voice_object h)),
              Speak_call (voice_object h) (c_str text) SPF_IS_XML (Speak_ret h),
              Release_call (voice_object h),
              CoUninitialize_call])"
  using assms
  by (simp add: speakText_def CoInitialize_def CoCreateInstance_def ISpVoice_Speak_def
      ISpVoice_Release_def CoUninitialize_def Let_def)

lemma main_init_failed:
  assumes "FAILED (CoInitialize_ret h)"
  shows "main h t =
    Inr (0, t @ [Stdout_line ''Generating 18kHz tone...'',
                 Beep_call 18000 3000 (Beep_ret h),
                 Stdout_line ''Speaking medical note...'',
                 CoInitialize_call (CoInitialize_ret h),
                 Stderr_line ''Failed to initialize COM.''])"
  by (simp add: main_def cout_endl_def generateTone_eq speakText_init_failed [OF assms])

lemma main_create_failed:
  assumes "\<not> FAILED (CoInitialize_ret h)" and "\<not> SUCCEEDED (CoCreateInstance_ret h)"
  shows "main h t =
    Inr (0, t @ [Stdout_line ''Generating 18kHz tone...'',
                 Beep_call 18000 3000 (Beep_ret h),
                 Stdout_line ''Speaking medical note...'',
                 CoInitialize_call (CoInitialize_ret h),
                 CoCreateInstance_call CLSID_SpVoice CLSCTX_ALL IID_ISpVoice
                   (CoCreateInstance_ret h) nullptr,
                 Stderr_line ''Failed to create SAPI voice instance.'',
                 CoUninitialize_call])"
  by (simp add: main_def cout_endl_def generateTone_eq speakText_create_failed [OF assms])

lemma main_spoken:
  assumes "\<not> FAILED (CoInitialize_ret h)" and "SUCCEEDED (CoCreateInstance_ret h)"
  shows "main h t =
    Inr (0, t @ [Stdout_line ''Generating 18kHz tone...'',
                 Beep_call 18000 3000 (Beep_ret h),
                 Stdout_line ''Speaking medical note...'',
                 CoInitialize_call (CoInitialize_ret h),
                 CoCreateInstance_call CLSID_SpVoice CLSCTX_ALL IID_ISpVoice
                   (CoCreateInstance_ret h) (Ptr (voice_object h)),
                 Speak_call (voice_object h) voice_to_speak SPF_IS_XML (Speak_ret h),
                 Release_call (voice_object h),
                 CoUninitialize_call])"
  by (simp add: main_def cout_endl_def generateTone_eq speakText_spoken [OF assms]
      c_str_voice_to_speak)

lemma host_cases [case_names init_failed create_failed spoken]:
  obtains (init_failed) "FAILED (CoInitialize_ret h)"
  | (create_failed) "\<not> FAILED (CoInitialize_ret h)" "\<not> SUCCEEDED (CoCreateInstance_ret h)"
  | (spoken) "\<not> FAILED (CoInitialize_ret h)" "SUCCEEDED (CoCreateInstance_ret h)"
  by blast

lemma failed_calls_iff:
  assumes "speakText h text t = Inr (t @ t')"
  shows "list_ex CoInitialize_failed t' \<longleftrightarrow> FAILED (CoInitialize_ret h)"
    and "list_ex CoCreateInstance_failed t' \<longleftrightarrow>
      \<not> FAILED (CoInitialize_ret h) \<and> FAILED (CoCreateInstance_ret h)"
proof -
  have "(list_ex CoInitialize_failed t' \<longleftrightarrow> FAILED (CoInitialize_ret h)) \<and>
    (list_ex CoCreateInstance_failed t' \<longleftrightarrow>
      \<not> FAILED (CoInitialize_ret h) \<and> FAILED (CoCreateInstance_ret h))"
  proof (cases h rule: host_cases)
    case init_failed
    from speakText_init_failed [OF init_failed, of "text" t] assms init_failed show ?thesis
      by auto
  next
    case create_failed
    from speakText_create_failed [OF create_failed, of "text" t] assms create_failed
    show ?thesis by (auto simp: SUCCEEDED_iff_not_FAILED)
  next
    case spoken
    from speakText_spoken [OF spoken, of "text" t] assms spoken show ?thesis
      by (auto simp: SUCCEEDED_iff_not_FAILED)
  qed
  then show "list_ex CoInitialize_failed t' \<longleftrightarrow> FAILED (CoInitialize_ret h)"
    and "list_ex CoCreateInstance_failed t' \<longleftrightarrow>
      \<not> FAILED (CoInitialize_ret h) \<and> FAILED (CoCreateInstance_ret h)"
    by simp_all
qed

lemma main_frame: "\<exists>e. main h [] = Inr (0, e) \<and> (\<forall>t. main h t = Inr (0, t @ e))"
proof (cases h rule: host_cases)
  case init_failed
  from main_init_failed [OF init_failed] show ?thesis by simp
next
  case create_failed
  from main_create_failed [OF create_failed] show ?thesis by simp
next
  case spoken
  from main_spoken [OF spoken] show ?thesis by simp
qed

lemma main_events:
  assumes "main h [] = Inr (0, e)"
  shows "length (filter is_Beep e) = 1"
    and "length (filter is_Speak e) =
      (if SUCCEEDED (CoInitialize_ret h) \<and> SUCCEEDED (CoCreateInstance_ret h) then 1 else 0)"
    and "com_released e = com_acquired e"
    and "voices_released e = voices_acquired e"
    and "set (voices_used e) \<subseteq> set (voices_acquired e)"
proof -
  have "length (filter is_Beep e) = 1 \<and>
    length (filter is_Speak e) =
      (if SUCCEEDED (CoInitialize_ret h) \<and> SUCCEEDED (CoCreateInstance_ret h) then 1 else 0) \<and>
    com_released e = com_acquired e \<and> voices_released e = voices_acquired e \<and>
    set (voices_used e) \<subseteq> set (voices_acquired e)"
  proof (cases h rule: host_cases)
    case init_failed
    from main_init_failed [OF init_failed, of "[]"] assms init_failed show ?thesis
      by (auto simp: com_released_def com_acquired_def voices_released_def
          voices_acquired_def voices_used_def SUCCEEDED_iff_not_FAILED)
  next
    case create_failed
    from main_create_failed [OF create_failed, of "[]"] assms create_failed show ?thesis
      by (auto simp: com_released_def com_acquired_def voices_released_def
          voices_acquired_def voices_used_def SUCCEEDED_iff_not_FAILED)
  next
    case spoken
    from main_spoken [OF spoken, of "[]"] assms spoken show ?thesis
      by (auto simp: com_released_def com_acquired_def voices_released_def
          voices_acquired_def voices_used_def SUCCEEDED_iff_not_FAILED)
  qed
  then show "length (filter is_Beep e) = 1"
    and "length (filter is_Speak e) =
      (if SUCCEEDED (CoInitialize_ret h) \<and> SUCCEEDED (CoCreateInstance_ret h) then 1 else 0)"
    and "com_released e = com_acquired e"
    and "voices_released e = voices_acquired e"
    and "set (voices_used e) \<subseteq> set (voices_acquired e)"
    by simp_all
qed

section \<open>The claims\<close>

text \<open>
  C1. When every host call succeeds (\<^verbatim>\<open>Beep\<close> returns true, \<^verbatim>\<open>CoInitialize\<close>,
  \<^verbatim>\<open>CoCreateInstance\<close> and \<^verbatim>\<open>Speak\<close> return success codes), a full run of
  \<open>main\<close> from any earlier trace \<open>t0\<close> returns exit code 0, and among the events it
  appends there is exactly one tone-play call, with frequency 18000 and duration 3000, and
  exactly one speak call, on the voice the host created and with exactly the text of the
  medical note.
\<close>

theorem C1_healthy_run:
  assumes "Beep_ret h" and "SUCCEEDED (CoInitialize_ret h)"
    and "SUCCEEDED (CoCreateInstance_ret h)" and "SUCCEEDED (Speak_ret h)"
  shows "\<exists>t. main h t0 = Inr (0, t0 @ t) \<and>
    filter is_Beep t = [Beep_call 18000 3000 True] \<and>
    filter is_Speak t =
      [Speak_call (voice_object h)
         ''The patient has been complaining of chest pain for the past week. ECG shows irregular rhythm. Prescribed low dose beta-blocker. Recommended follow-up in 5 days.''
         SPF_IS_XML (Speak_ret h)]"
proof -
  from assms(2) have "\<not> FAILED (CoInitialize_ret h)"
    by (simp add: SUCCEEDED_iff_not_FAILED)
  from main_spoken [OF this assms(3)] assms(1) show ?thesis
    by (simp add: voice_to_speak_def)
qed

theorem C1_healthy_run_witness:
  "Beep_ret host_healthy \<and> SUCCEEDED (CoInitialize_ret host_healthy) \<and>
   SUCCEEDED (CoCreateInstance_ret host_healthy) \<and> SUCCEEDED (Speak_ret host_healthy) \<and>
   (\<exists>t. main host_healthy [] = Inr (0, t) \<and>
      filter is_Beep t = [Beep_call 18000 3000 True] \<and>
      filter is_Speak t =
        [Speak_call 7
           ''The patient has been complaining of chest pain for the past week. ECG shows irregular rhythm. Prescribed low dose beta-blocker. Recommended follow-up in 5 days.''
           SPF_IS_XML 0])"
  using C1_healthy_run [of host_healthy "[]"]
  by (simp add: host_healthy_def FAILED_def SUCCEEDED_def)

text \<open>
  C2. In every call of \<open>speakText\<close> in which the voice-creation step fails, that is
  \<^verbatim>\<open>CoInitialize\<close> succeeded, so that the step is reached, and the host answers
  \<^verbatim>\<open>CoCreateInstance\<close> with a failure code, the call returns normally (the result is
  not a crash), and the events it appends hold the failed \<^verbatim>\<open>CoCreateInstance\<close> call,
  exactly one error line (``Failed to create SAPI voice instance.''), no speak call, and
  exactly one \<^verbatim>\<open>CoUninitialize\<close> call, which is the last event.
\<close>

theorem C2_voice_creation_fails:
  assumes "\<not> FAILED (CoInitialize_ret h)" and "FAILED (CoCreateInstance_ret h)"
  shows "\<exists>t'. speakText h text t = Inr (t @ t') \<and>
     list_ex CoCreateInstance_failed t' \<and>
     filter is_Stderr t' = [Stderr_line ''Failed to create SAPI voice instance.''] \<and>
     filter is_Speak t' = [] \<and>
     filter is_CoUninitialize t' = [CoUninitialize_call] \<and>
     last t' = CoUninitialize_call"
proof -
  from assms(2) have no_voice: "\<not> SUCCEEDED (CoCreateInstance_ret h)"
    by (simp add: SUCCEEDED_iff_not_FAILED)
  from speakText_create_failed [OF assms(1) no_voice] assms(2) show ?thesis
    by simp
qed

theorem C2_voice_creation_fails_witness:
  "\<not> FAILED (CoInitialize_ret host_no_voice) \<and> FAILED (CoCreateInstance_ret host_no_voice) \<and>
   (\<exists>t'. speakText host_no_voice ''note'' [] = Inr t' \<and>
      list_ex CoCreateInstance_failed t' \<and>
      filter is_Stderr t' = [Stderr_line ''Failed to create SAPI voice instance.''] \<and>
      filter is_Speak t' = [] \<and>
      filter is_CoUninitialize t' = [CoUninitialize_call] \<and>
      last t' = CoUninitialize_call)"
proof -
  have init: "\<not> FAILED (CoInitialize_ret host_no_voice)"
    and create: "FAILED (CoCreateInstance_ret host_no_voice)"
    by (simp_all add: host_no_voice_def FAILED_def)
  from C2_voice_creation_fails [OF init create, of "''note''" "[]"] init create
  show ?thesis by simp
qed

text \<open>
  C3. In every call of \<open>speakText\<close> in which the host answers \<^verbatim>\<open>CoInitialize\<close>
  with a failure code, the call returns normally (the result is not a crash), and the
  events it appends are the failed \<^verbatim>\<open>CoInitialize\<close> call and one error line
  (``Failed to initialize COM.''): no \<^verbatim>\<open>CoCreateInstance\<close> call, exactly one error
  line and no speak call.
\<close>

theorem C3_runtime_init_fails:
  assumes "FAILED (CoInitialize_ret h)"
  shows "\<exists>t'. speakText h text t = Inr (t @ t') \<and>
     t' = [CoInitialize_call (CoInitialize_ret h), Stderr_line ''Failed to initialize COM.''] \<and>
     list_ex CoInitialize_failed t' \<and>
     filter is_CoCreateInstance t' = [] \<and>
     filter is_Stderr t' = [Stderr_line ''Failed to initialize COM.''] \<and>
     filter is_Speak t' = []"
  using speakText_init_failed [OF assms] assms by simp

theorem C3_runtime_init_fails_witness:
  "FAILED (CoInitialize_ret host_no_com) \<and>
   (\<exists>t'. speakText host_no_com ''note'' [] = Inr t' \<and>
      t' = [CoInitialize_call 0x80004005, Stderr_line ''Failed to initialize COM.''] \<and>
      list_ex CoInitialize_failed t' \<and>
      filter is_CoCreateInstance t' = [] \<and>
      filter is_Stderr t' = [Stderr_line ''Failed to initialize COM.''] \<and>
      filter is_Speak t' = [])"
proof -
  have init: "FAILED (CoInitialize_ret host_no_com)"
    by (simp add: host_no_com_def FAILED_def)
  have ret: "CoInitialize_ret host_no_com = 0x80004005"
    by (simp add: host_no_com_def)
  from C3_runtime_init_fails [OF init, of "''note''" "[]"] init show ?thesis
    by (simp add: ret)
qed

text \<open>
  C4. For every host, that is every combination of results of \<^verbatim>\<open>Beep\<close>,
  \<^verbatim>\<open>CoInitialize\<close>, \<^verbatim>\<open>CoCreateInstance\<close> and \<^verbatim>\<open>Speak\<close>, and from every earlier
  trace, \<open>main\<close> returns, and its exit code is 0.
\<close>

theorem C4_exit_code_zero: "\<exists>t. main h t0 = Inr (0, t)"
proof (cases "FAILED (CoInitialize_ret h)")
  case True
  from main_init_failed [OF True] show ?thesis by simp
next
  case False
  show ?thesis
  proof (cases "SUCCEEDED (CoCreateInstance_ret h)")
    case True
    from main_spoken [OF False True] show ?thesis by simp
  next
    case no_voice: False
    from main_create_failed [OF False no_voice] show ?thesis by simp
  qed
qed

theorem C4_exit_code_zero_witness:
  "(\<exists>t. main host_healthy [] = Inr (0, t)) \<and> (\<exists>t. main host_no_com [] = Inr (0, t)) \<and>
   (\<exists>t. main host_no_voice [] = Inr (0, t))"
  using C4_exit_code_zero [of host_healthy "[]"] C4_exit_code_zero [of host_no_com "[]"]
    C4_exit_code_zero [of host_no_voice "[]"]
  by simp

text \<open>
  C5 (amended). Every call of \<open>speakText\<close> returns normally, and among the events it
  appends each resource that was acquired is released exactly once and nothing else is
  released: \<^verbatim>\<open>CoUninitialize\<close> is called as often as \<^verbatim>\<open>CoInitialize\<close> succeeded,
  which is once, or not at all when \<^verbatim>\<open>CoInitialize\<close> failed; the voices released are
  exactly the voices acquired, which is the one voice the host created, or none when
  \<^verbatim>\<open>CoInitialize\<close> or \<^verbatim>\<open>CoCreateInstance\<close> failed.
\<close>

theorem C5_release_balances_acquisition:
  "\<exists>t'. speakText h text t = Inr (t @ t') \<and>
     com_released t' = com_acquired t' \<and>
     com_acquired t' = (if FAILED (CoInitialize_ret h) then 0 else 1) \<and>
     voices_released t' = voices_acquired t' \<and>
     voices_acquired t' =
       (if FAILED (CoInitialize_ret h) \<or> FAILED (CoCreateInstance_ret h) then []
        else [voice_object h])"
proof (cases h rule: host_cases)
  case init_failed
  from speakText_init_failed [OF init_failed] init_failed show ?thesis
    by (simp add: com_released_def com_acquired_def voices_released_def voices_acquired_def
        SUCCEEDED_iff_not_FAILED)
next
  case create_failed
  from speakText_create_failed [OF create_failed] create_failed show ?thesis
    by (simp add: com_released_def com_acquired_def voices_released_def voices_acquired_def
        SUCCEEDED_iff_not_FAILED)
next
  case spoken
  from speakText_spoken [OF spoken] spoken show ?thesis
    by (simp add: com_released_def com_acquired_def voices_released_def voices_acquired_def
        SUCCEEDED_iff_not_FAILED)
qed

theorem C5_release_balances_acquisition_witness:
  "speakText host_healthy ''note'' [] =
     Inr [CoInitialize_call 0,
          CoCreateInstance_call CLSID_SpVoice CLSCTX_ALL IID_ISpVoice 0 (Ptr 7),
          Speak_call 7 ''note'' SPF_IS_XML 0, Release_call 7, CoUninitialize_call] \<and>
   (\<exists>t'. speakText host_healthy ''note'' [] = Inr t' \<and>
      com_released t' = 1 \<and> com_acquired t' = 1 \<and>
      voices_released t' = [7] \<and> voices_acquired t' = [7])"
proof -
  have run: "speakText host_healthy ''note'' [] =
     Inr [CoInitialize_call 0,
          CoCreateInstance_call CLSID_SpVoice CLSCTX_ALL IID_ISpVoice 0 (Ptr 7),
          Speak_call 7 ''note'' SPF_IS_XML 0, Release_call 7, CoUninitialize_call]"
    using speakText_spoken [of host_healthy "''note''" "[]"]
    by (simp add: host_healthy_def FAILED_def SUCCEEDED_def c_str_def)
  from C5_release_balances_acquisition [of host_healthy "''note''" "[]"] run show ?thesis
    by (simp add: host_healthy_def FAILED_def SUCCEEDED_def)
qed

text \<open>
  The claim as written asks for exactly one release on every exit path, the
  initialisation failure included. On the host whose \<^verbatim>\<open>CoInitialize\<close> fails the call
  returns early: neither \<^verbatim>\<open>CoUninitialize\<close> nor \<^verbatim>\<open>Release\<close> is called.
\<close>

theorem C5_release_exactly_once_counterexample:
  "speakText host_no_com ''note'' [] =
     Inr [CoInitialize_call 0x80004005, Stderr_line ''Failed to initialize COM.''] \<and>
   length (filter is_CoUninitialize
     [CoInitialize_call 0x80004005, Stderr_line ''Failed to initialize COM.'']) \<noteq> 1 \<and>
   length (filter is_Release
     [CoInitialize_call 0x80004005, Stderr_line ''Failed to initialize COM.'']) \<noteq> 1"
  using speakText_init_failed [of host_no_com "''note''" "[]"]
  by (simp add: host_no_com_def FAILED_def SUCCEEDED_def)

text \<open>
  C6. In every run, from every earlier trace, \<open>main\<close> returns exit code 0 and appends:
  its first status line, the events of one \<open>generateTone\<close> call (one tone-play call),
  its second status line, and the events \<open>speech\<close> of one \<open>speakText\<close> call on the
  medical note. \<open>speech\<close> holds no tone-play call, holds only events of the announcement,
  and holds exactly one \<^verbatim>\<open>CoInitialize\<close> call, its first step; so the tone call
  precedes every event of the announcement, the speak call included. The exit code and the
  events of the announcement are the same whatever \<^verbatim>\<open>Beep\<close> returned: the value is
  not consumed. Both components are \<^verbatim>\<open>void\<close>: in the model they return the trace only.
\<close>

theorem C6_tone_then_announcement:
  "\<exists>speech. speakText h voice_to_speak [] = Inr speech \<and>
     main h t0 =
       Inr (0, t0 @ [Stdout_line ''Generating 18kHz tone...''] @ generateTone h [] @
                [Stdout_line ''Speaking medical note...''] @ speech) \<and>
     generateTone h [] = [Beep_call 18000 3000 (Beep_ret h)] \<and>
     filter is_Beep speech = [] \<and>
     filter is_speech_event speech = speech \<and>
     filter is_CoInitialize speech = [CoInitialize_call (CoInitialize_ret h)] \<and>
     (\<forall>b. main (h\<lparr>Beep_ret := b\<rparr>) t0 =
        Inr (0, t0 @ [Stdout_line ''Generating 18kHz tone...'', Beep_call 18000 3000 b,
                      Stdout_line ''Speaking medical note...''] @ speech))"
proof (cases h rule: host_cases)
  case init_failed
  then have other: "FAILED (CoInitialize_ret (h\<lparr>Beep_ret := b\<rparr>))" for b
    by simp
  from speakText_init_failed [OF init_failed] main_init_failed [OF init_failed]
    main_init_failed [OF other]
  show ?thesis by (simp add: is_speech_event_def generateTone_eq)
next
  case create_failed
  then have other: "\<not> FAILED (CoInitialize_ret (h\<lparr>Beep_ret := b\<rparr>))"
    "\<not> SUCCEEDED (CoCreateInstance_ret (h\<lparr>Beep_ret := b\<rparr>))" for b
    by simp_all
  from speakText_create_failed [OF create_failed] main_create_failed [OF create_failed]
    main_create_failed [OF other]
  show ?thesis by (simp add: is_speech_event_def generateTone_eq)
next
  case spoken
  then have other: "\<not> FAILED (CoInitialize_ret (h\<lparr>Beep_ret := b\<rparr>))"
    "SUCCEEDED (CoCreateInstance_ret (h\<lparr>Beep_ret := b\<rparr>))" for b
    by simp_all
  from speakText_spoken [OF spoken] main_spoken [OF spoken] main_spoken [OF other]
  show ?thesis by (simp add: is_speech_event_def generateTone_eq c_str_voice_to_speak)
qed

theorem C6_tone_then_announcement_witness:
  "main host_no_voice [] =
     Inr (0, [Stdout_line ''Generating 18kHz tone...'', Beep_call 18000 3000 True,
              Stdout_line ''Speaking medical note...'',
              CoInitialize_call 0,
              CoCreateInstance_call CLSID_SpVoice CLSCTX_ALL IID_ISpVoice 0x80040154 nullptr,
              Stderr_line ''Failed to create SAPI voice instance.'',
              CoUninitialize_call]) \<and>
   main (host_no_voice\<lparr>Beep_ret := False\<rparr>) [] =
     Inr (0, [Stdout_line ''Generating 18kHz tone...'', Beep_call 18000 3000 False,
              Stdout_line ''Speaking medical note...'',
              CoInitialize_call 0,
              CoCreateInstance_call CLSID_SpVoice CLSCTX_ALL IID_ISpVoice 0x80040154 nullptr,
              Stderr_line ''Failed to create SAPI voice instance.'',
              CoUninitialize_call])"
proof -
  have run: "speakText host_no_voice voice_to_speak [] =
     Inr [CoInitialize_call 0,
          CoCreateInstance_call CLSID_SpVoice CLSCTX_ALL IID_ISpVoice 0x80040154 nullptr,
          Stderr_line ''Failed to create SAPI voice instance.'',
          CoUninitialize_call]"
    using speakText_create_failed [of host_no_voice voice_to_speak "[]"]
    by (simp add: host_no_voice_def FAILED_def SUCCEEDED_def)
  from C6_tone_then_announcement [of host_no_voice "[]"] run show ?thesis
    by (auto simp: host_no_voice_def)
qed

text \<open>
  C7 (amended). \<open>generateTone\<close> takes no ToneSpec. On every call, whatever the host
  returns, it appends exactly one tone-play call, with frequency 18000 and duration 3000,
  which is what the specification's ToneEmitter does for the ToneSpec (18000, 3000), and
  it returns without reporting an error: it writes no error line and its type has no
  error result.
\<close>

theorem C7_fixed_tone:
  "generateTone h t = t @ [Beep_call 18000 3000 (Beep_ret h)] \<and>
   generateTone h t = spec_ToneEmitter h \<lparr>frequency = 18000, duration = 3000\<rparr> t \<and>
   filter is_Stderr (generateTone h []) = []"
  by (simp add: generateTone_def spec_ToneEmitter_def Beep_def)

theorem C7_fixed_tone_witness:
  "generateTone host_healthy [] = [Beep_call 18000 3000 True] \<and>
   generateTone host_healthy [] =
     spec_ToneEmitter host_healthy \<lparr>frequency = 18000, duration = 3000\<rparr> []"
  using C7_fixed_tone [of host_healthy "[]"]
  by (simp add: spec_ToneEmitter_def Beep_def host_healthy_def FAILED_def SUCCEEDED_def)

text \<open>
  The claim as written quantifies over every ToneSpec with a positive frequency and
  duration. For the ToneSpec (440, 1000) the specification's ToneEmitter plays 440 Hz for
  1000 ms; \<open>generateTone\<close> has no parameter and plays 18000 Hz for 3000 ms.
\<close>

theorem C7_any_tone_counterexample:
  "0 < unat (frequency \<lparr>frequency = 440, duration = 1000\<rparr>) \<and>
   0 < unat (duration \<lparr>frequency = 440, duration = 1000\<rparr>) \<and>
   generateTone host_healthy [] = [Beep_call 18000 3000 True] \<and>
   spec_ToneEmitter host_healthy \<lparr>frequency = 440, duration = 1000\<rparr> [] =
     [Beep_call 440 1000 True] \<and>
   generateTone host_healthy [] \<noteq>
     spec_ToneEmitter host_healthy \<lparr>frequency = 440, duration = 1000\<rparr> []"
  by (simp add: generateTone_def spec_ToneEmitter_def Beep_def host_healthy_def)

text \<open>
  C8 (amended). Running the full sequence twice in succession, with host answers \<open>h1\<close>
  in the first run and \<open>h2\<close> in the second, returns exit code 0 twice and appends the
  events \<open>e1\<close> of a fresh run under \<open>h1\<close> followed by the events \<open>e2\<close> of a fresh
  run under \<open>h2\<close>: the second run does not depend on the first, and with the same host
  answers its events are the same. Each run makes exactly one tone-play call, so together
  exactly two. Each run makes exactly one speak call when \<^verbatim>\<open>CoInitialize\<close> and
  \<^verbatim>\<open>CoCreateInstance\<close> both succeed in it and none when either fails, so together
  exactly two when both succeed in both runs. When the first run ends everything it
  acquired has been released, and the second run uses only a voice it acquired itself.
\<close>

theorem C8_two_runs:
  "\<exists>e1 e2. main h1 [] = Inr (0, e1) \<and> main h2 [] = Inr (0, e2) \<and>
     run_twice h1 h2 t0 = Inr (0, 0, t0 @ e1 @ e2) \<and>
     length (filter is_Beep e1) = 1 \<and> length (filter is_Beep e2) = 1 \<and>
     length (filter is_Beep (e1 @ e2)) = 2 \<and>
     length (filter is_Speak e1) =
       (if SUCCEEDED (CoInitialize_ret h1) \<and> SUCCEEDED (CoCreateInstance_ret h1)
        then 1 else 0) \<and>
     length (filter is_Speak e2) =
       (if SUCCEEDED (CoInitialize_ret h2) \<and> SUCCEEDED (CoCreateInstance_ret h2)
        then 1 else 0) \<and>
     length (filter is_Speak (e1 @ e2)) =
       (if SUCCEEDED (CoInitialize_ret h1) \<and> SUCCEEDED (CoCreateInstance_ret h1)
        then 1 else 0) +
       (if SUCCEEDED (CoInitialize_ret h2) \<and> SUCCEEDED (CoCreateInstance_ret h2)
        then 1 else 0) \<and>
     com_released e1 = com_acquired e1 \<and> voices_released e1 = voices_acquired e1 \<and>
     set (voices_used e2) \<subseteq> set (voices_acquired e2) \<and>
     run_twice h1 h1 t0 = Inr (0, 0, t0 @ e1 @ e1)"
proof -
  from main_frame [of h1] obtain e1
    where e1: "main h1 [] = Inr (0, e1)" and f1: "\<And>t. main h1 t = Inr (0, t @ e1)"
    by blast
  from main_frame [of h2] obtain e2
    where e2: "main h2 [] = Inr (0, e2)" and f2: "\<And>t. main h2 t = Inr (0, t @ e2)"
    by blast
  have twice: "run_twice h1 h2 t0 = Inr (0, 0, t0 @ e1 @ e2)"
    by (simp add: run_twice_def f1 f2)
  have same: "run_twice h1 h1 t0 = Inr (0, 0, t0 @ e1 @ e1)"
    by (simp add: run_twice_def f1)
  from e1 e2 twice same main_events [OF e1] main_events [OF e2] show ?thesis
    by (intro exI [of _ e1] exI [of _ e2]) simp
qed

theorem C8_two_runs_witness:
  "(\<exists>e. main host_healthy [] = Inr (0, e) \<and>
      run_twice host_healthy host_healthy [] = Inr (0, 0, e @ e) \<and>
      length (filter is_Beep (e @ e)) = 2 \<and> length (filter is_Speak (e @ e)) = 2) \<and>
   (\<exists>e1 e2. main host_healthy [] = Inr (0, e1) \<and> main host_no_voice [] = Inr (0, e2) \<and>
      run_twice host_healthy host_no_voice [] = Inr (0, 0, e1 @ e2) \<and>
      length (filter is_Beep (e1 @ e2)) = 2 \<and> length (filter is_Speak e1) = 1 \<and>
      length (filter is_Speak e2) = 0)"
proof -
  have ok: "SUCCEEDED (CoInitialize_ret host_healthy)"
    "SUCCEEDED (CoCreateInstance_ret host_healthy)"
    by (simp_all add: host_healthy_def SUCCEEDED_def)
  have bad: "\<not> SUCCEEDED (CoCreateInstance_ret host_no_voice)"
    by (simp add: host_no_voice_def SUCCEEDED_def)
  from C8_two_runs [of host_healthy host_healthy "[]"] ok
  have first: "\<exists>e. main host_healthy [] = Inr (0, e) \<and>
      run_twice host_healthy host_healthy [] = Inr (0, 0, e @ e) \<and>
      length (filter is_Beep (e @ e)) = 2 \<and> length (filter is_Speak (e @ e)) = 2"
    by auto
  from C8_two_runs [of host_healthy host_no_voice "[]"] ok bad
  have second: "\<exists>e1 e2. main host_healthy [] = Inr (0, e1) \<and>
      main host_no_voice [] = Inr (0, e2) \<and>
      run_twice host_healthy host_no_voice [] = Inr (0, 0, e1 @ e2) \<and>
      length (filter is_Beep (e1 @ e2)) = 2 \<and> length (filter is_Speak e1) = 1 \<and>
      length (filter is_Speak e2) = 0"
    by auto
  from first second show ?thesis by blast
qed

text \<open>
  The claim as written promises two speak calls in every pair of runs. On the host whose
  \<^verbatim>\<open>CoInitialize\<close> fails two runs in succession make no speak call at all.
\<close>

theorem C8_two_speak_calls_counterexample:
  "run_twice host_no_com host_no_com [] =
     Inr (0, 0,
       [Stdout_line ''Generating 18kHz tone...'', Beep_call 18000 3000 True,
        Stdout_line ''Speaking medical note...'',
        CoInitialize_call 0x80004005, Stderr_line ''Failed to initialize COM.'',
        Stdout_line ''Generating 18kHz tone...'', Beep_call 18000 3000 True,
        Stdout_line ''Speaking medical note...'',
        CoInitialize_call 0x80004005, Stderr_line ''Failed to initialize COM.'']) \<and>
   length (filter is_Speak
       [Stdout_line ''Generating 18kHz tone...'', Beep_call 18000 3000 True,
        Stdout_line ''Speaking medical note...'',
        CoInitialize_call 0x80004005, Stderr_line ''Failed to initialize COM.'',
        Stdout_line ''Generating 18kHz tone...'', Beep_call 18000 3000 True,
        Stdout_line ''Speaking medical note...'',
        CoInitialize_call 0x80004005, Stderr_line ''Failed to initialize COM.'']) \<noteq> 2"
proof -
  have "FAILED (CoInitialize_ret host_no_com)"
    by (simp add: host_no_com_def FAILED_def SUCCEEDED_def)
  from main_init_failed [OF this] show ?thesis
    by (simp add: run_twice_def host_no_com_def FAILED_def SUCCEEDED_def)
qed

text \<open>
  C9. Every call of \<open>speakText\<close> returns normally: no method is ever called through
  the null pointer. Among the events it appends, every voice used by \<^verbatim>\<open>Speak\<close> or
  \<^verbatim>\<open>Release\<close> was handed out by \<^verbatim>\<open>CoCreateInstance\<close>, and no use comes before that
  call. If there is any use, \<^verbatim>\<open>CoCreateInstance\<close> succeeded and \<^verbatim>\<open>pVoice\<close> holds the
  voice it created. If \<^verbatim>\<open>CoInitialize\<close> or \<^verbatim>\<open>CoCreateInstance\<close> failed,
  \<^verbatim>\<open>pVoice\<close> is still null at the end and was never used.
\<close>

theorem C9_voice_pointer_use:
  "\<exists>t'. speakText h text t = Inr (t @ t') \<and>
     set (voices_used t') \<subseteq> set (voices_acquired t') \<and>
     voices_used (takeWhile (\<lambda>e. \<not> is_CoCreateInstance e) t') = [] \<and>
     (voices_used t' \<noteq> [] \<longrightarrow>
        SUCCEEDED (CoCreateInstance_ret h) \<and> pVoice_after nullptr t' = Ptr (voice_object h) \<and>
        voices_used t' = [voice_object h, voice_object h]) \<and>
     (list_ex CoInitialize_failed t' \<or> list_ex CoCreateInstance_failed t' \<longrightarrow>
        pVoice_after nullptr t' = nullptr \<and> voices_used t' = [])"
proof (cases h rule: host_cases)
  case init_failed
  from speakText_init_failed [OF init_failed] show ?thesis
    by (simp add: voices_used_def voices_acquired_def)
next
  case create_failed
  from speakText_create_failed [OF create_failed] show ?thesis
    by (simp add: voices_used_def voices_acquired_def)
next
  case spoken
  from speakText_spoken [OF spoken] spoken show ?thesis
    by (simp add: voices_used_def voices_acquired_def SUCCEEDED_iff_not_FAILED)
qed

theorem C9_voice_pointer_use_witness:
  "speakText host_healthy ''note'' [] =
     Inr [CoInitialize_call 0,
          CoCreateInstance_call CLSID_SpVoice CLSCTX_ALL IID_ISpVoice 0 (Ptr 7),
          Speak_call 7 ''note'' SPF_IS_XML 0, Release_call 7, CoUninitialize_call] \<and>
   (\<exists>t'. speakText host_healthy ''note'' [] = Inr t' \<and>
      voices_used t' = [7, 7] \<and> voices_acquired t' = [7] \<and>
      pVoice_after nullptr t' = Ptr 7) \<and>
   speakText host_no_voice ''note'' [] =
     Inr [CoInitialize_call 0,
          CoCreateInstance_call CLSID_SpVoice CLSCTX_ALL IID_ISpVoice 0x80040154 nullptr,
          Stderr_line ''Failed to create SAPI voice instance.'',
          CoUninitialize_call] \<and>
   (\<exists>t'. speakText host_no_voice ''note'' [] = Inr t' \<and>
      list_ex CoCreateInstance_failed t' \<and>
      voices_used t' = [] \<and> pVoice_after nullptr t' = nullptr)"
proof -
  have run: "speakText host_healthy ''note'' [] =
     Inr [CoInitialize_call 0,
          CoCreateInstance_call CLSID_SpVoice CLSCTX_ALL IID_ISpVoice 0 (Ptr 7),
          Speak_call 7 ''note'' SPF_IS_XML 0, Release_call 7, CoUninitialize_call]"
    using speakText_spoken [of host_healthy "''note''" "[]"]
    by (simp add: host_healthy_def FAILED_def SUCCEEDED_def c_str_def)
  have run': "speakText host_no_voice ''note'' [] =
     Inr [CoInitialize_call 0,
          CoCreateInstance_call CLSID_SpVoice CLSCTX_ALL IID_ISpVoice 0x80040154 nullptr,
          Stderr_line ''Failed to create SAPI voice instance.'',
          CoUninitialize_call]"
    using speakText_create_failed [of host_no_voice "''note''" "[]"]
    by (simp add: host_no_voice_def FAILED_def SUCCEEDED_def)
  from C9_voice_pointer_use [of host_healthy "''note''" "[]"]
    C9_voice_pointer_use [of host_no_voice "''note''" "[]"] run run'
  show ?thesis
    by (simp add: voices_used_def voices_acquired_def FAILED_def)
qed

text \<open>
  C10. In every run, whatever the host answers, \<open>main\<close> appends the status line
  ``Generating 18kHz tone...'', then the tone-play call, then the status line
  ``Speaking medical note...'', then the events of the announcement (the events of
  \<open>speakText\<close>), which hold no further status line and no tone-play call.
\<close>

theorem C10_status_lines:
  "\<exists>speech. speakText h voice_to_speak [] = Inr speech \<and>
     main h t0 =
       Inr (0, t0 @ [Stdout_line ''Generating 18kHz tone...'',
                     Beep_call 18000 3000 (Beep_ret h),
                     Stdout_line ''Speaking medical note...''] @ speech) \<and>
     filter is_Stdout speech = [] \<and> filter is_Beep speech = [] \<and>
     filter is_speech_event speech = speech"
proof (cases h rule: host_cases)
  case init_failed
  from speakText_init_failed [OF init_failed] main_init_failed [OF init_failed]
  show ?thesis by (simp add: is_speech_event_def)
next
  case create_failed
  from speakText_create_failed [OF create_failed] main_create_failed [OF create_failed]
  show ?thesis by (simp add: is_speech_event_def)
next
  case spoken
  from speakText_spoken [OF spoken] main_spoken [OF spoken]
  show ?thesis by (simp add: is_speech_event_def c_str_voice_to_speak)
qed

theorem C10_status_lines_witness:
  "main host_no_com [] =
     Inr (0, [Stdout_line ''Generating 18kHz tone...'', Beep_call 18000 3000 True,
              Stdout_line ''Speaking medical note...'',
              CoInitialize_call 0x80004005, Stderr_line ''Failed to initialize COM.''])"
proof -
  have run: "speakText host_no_com voice_to_speak [] =
     Inr [CoInitialize_call 0x80004005, Stderr_line ''Failed to initialize COM.'']"
    using speakText_init_failed [of host_no_com voice_to_speak "[]"]
    by (simp add: host_no_com_def FAILED_def SUCCEEDED_def)
  from C10_status_lines [of host_no_com "[]"] run show ?thesis
    by (simp add: host_no_com_def FAILED_def SUCCEEDED_def)
qed

end
